theory Spec2Isabelle
  imports Main
begin

section \<open>Python values, errors and the operations the module uses on them\<close>

text \<open>
  The document that \<^verbatim>\<open>yaml.load\<close> returns is a dynamically typed Python value. Mappings are
  association lists in insertion order (the order \<^verbatim>\<open>items()\<close> iterates in); their keys are
  the strings of the document schema and are pairwise distinct, as the keys of a Python
  \<^verbatim>\<open>dict\<close> are. The scalars are null, the booleans, the integers and the strings; the module
  runs with assertions enabled, as Python does by default.
\<close>

datatype pyval =
    PNone
  | PBool bool
  | PInt int
  | PStr string
  | PList "pyval list"
  | PDict "(string \<times> pyval) list"

text \<open>The exceptions the module can end with. \<open>LoadError\<close> is whatever \<^verbatim>\<open>open\<close> or
  \<^verbatim>\<open>yaml.load\<close> raises; \<open>InvalidConfigError\<close> is the module's own error.\<close>

datatype error =
    KeyError
  | AttributeError
  | TypeError
  | IndexError
  | ValueError
  | LoadError
  | InvalidConfigError

text \<open>\<^verbatim>\<open>ParameterStore(region, boto3)\<close>: a client object, known by the region it is bound to.\<close>

datatype store = ParameterStore pyval

text \<open>A value held by an instance attribute: a document value or a client object.\<close>

datatype attr = Val pyval | Obj store

text \<open>Sequencing of statements that may raise: the first exception ends the run.\<close>

definition bindE :: "error + 'a \<Rightarrow> ('a \<Rightarrow> error + 'b) \<Rightarrow> error + 'b" where
  "bindE m f = (case m of Inl e \<Rightarrow> Inl e | Inr x \<Rightarrow> f x)"

text \<open>\<^verbatim>\<open>obj.get(key, default)\<close>: only a mapping has the method.\<close>

fun py_get :: "pyval \<Rightarrow> string \<Rightarrow> pyval \<Rightarrow> error + pyval" where
  "py_get (PDict d) k dflt = Inr (case map_of d k of None \<Rightarrow> dflt | Some v \<Rightarrow> v)"
| "py_get PNone k dflt = Inl AttributeError"
| "py_get (PBool b) k dflt = Inl AttributeError"
| "py_get (PInt i) k dflt = Inl AttributeError"
| "py_get (PStr s) k dflt = Inl AttributeError"
| "py_get (PList xs) k dflt = Inl AttributeError"

text \<open>Indexing a sequence of length \<open>n\<close> with a Python integer: negative indices count from
  the end, anything outside \<open>-n \<le> i < n\<close> raises.\<close>

definition py_index :: "'a list \<Rightarrow> int \<Rightarrow> error + 'a" where
  "py_index xs i =
     (if 0 \<le> i \<and> i < int (length xs) then Inr (xs ! nat i)
      else if i < 0 \<and> - int (length xs) \<le> i then Inr (xs ! nat (int (length xs) + i))
      else Inl IndexError)"

text \<open>\<^verbatim>\<open>obj[key]\<close>. A list or a string takes an integer (\<^verbatim>\<open>True\<close> and \<^verbatim>\<open>False\<close> are the integers
  1 and 0); a mapping takes one of its keys, which are strings here; nothing else can be
  subscripted.\<close>

fun py_getitem :: "pyval \<Rightarrow> pyval \<Rightarrow> error + pyval" where
  "py_getitem (PList xs) (PInt i) = py_index xs i"
| "py_getitem (PList xs) (PBool b) = py_index xs (if b then 1 else 0)"
| "py_getitem (PList xs) k = Inl TypeError"
| "py_getitem (PStr s) (PInt i) = bindE (py_index s i) (\<lambda>c. Inr (PStr [c]))"
| "py_getitem (PStr s) (PBool b) = bindE (py_index s (if b then 1 else 0)) (\<lambda>c. Inr (PStr [c]))"
| "py_getitem (PStr s) k = Inl TypeError"
| "py_getitem (PDict d) (PStr k) = (case map_of d k of None \<Rightarrow> Inl KeyError | Some v \<Rightarrow> Inr v)"
| "py_getitem (PDict d) (PList xs) = Inl TypeError"
| "py_getitem (PDict d) (PDict e) = Inl TypeError"
| "py_getitem (PDict d) k = Inl KeyError"
| "py_getitem PNone k = Inl TypeError"
| "py_getitem (PBool b) k = Inl TypeError"
| "py_getitem (PInt i) k = Inl TypeError"

text \<open>\<^verbatim>\<open>for x in obj\<close>: the elements of a list, the keys of a mapping, the characters of a
  string; nothing else can be iterated.\<close>

fun py_iter :: "pyval \<Rightarrow> error + pyval list" where
  "py_iter (PList xs) = Inr xs"
| "py_iter (PDict d) = Inr (map (\<lambda>kv. PStr (fst kv)) d)"
| "py_iter (PStr s) = Inr (map (\<lambda>c. PStr [c]) s)"
| "py_iter PNone = Inl TypeError"
| "py_iter (PBool b) = Inl TypeError"
| "py_iter (PInt i) = Inl TypeError"

text \<open>The truth value of \<^verbatim>\<open>if obj:\<close>.\<close>

fun truthy :: "pyval \<Rightarrow> bool" where
  "truthy PNone = False"
| "truthy (PBool b) = b"
| "truthy (PInt i) = (i \<noteq> 0)"
| "truthy (PStr s) = (s \<noteq> [])"
| "truthy (PList xs) = (xs \<noteq> [])"
| "truthy (PDict d) = (d \<noteq> [])"

text \<open>\<^verbatim>\<open>str(value)\<close> and the \<^verbatim>\<open>{value}\<close> of an f-string: a string is rendered as itself. How
  Python renders any other value (its \<^verbatim>\<open>repr\<close>) is not part of this module and is the
  parameter \<open>render\<close>.\<close>

definition py_str :: "(attr \<Rightarrow> string) \<Rightarrow> attr \<Rightarrow> string" where
  "py_str render a = (case a of Val (PStr s) \<Rightarrow> s | _ \<Rightarrow> render a)"

section \<open>The configuration model\<close>

text \<open>The instance attributes of \<^verbatim>\<open>Config\<close>, in the order \<^verbatim>\<open>__init__\<close> creates them.\<close>

record Config =
  parameters_client :: store
  config_path :: string
  organization_id :: pyval
  client_deployment_region :: "store option"
  notification_type :: pyval
  notification_endpoint :: pyval
  config_contents :: pyval
  config :: pyval
  deployment_account_region :: pyval
  notification_channel :: pyval
  protected :: pyval
  target_regions :: pyval
  cross_account_access_role :: pyval
  extensions :: pyval

definition AVAILABLE_EXTENSIONS :: "string list" where
  "AVAILABLE_EXTENSIONS = [''terraform'']"

subsection \<open>Validation\<close>

text \<open>\<^verbatim>\<open>_validate\<close>, lines 54 to 66: the tuple is built first, so both lookups in
  \<^verbatim>\<open>self.config\<close> run before the test for \<^verbatim>\<open>None\<close>.\<close>

definition check_required :: "Config \<Rightarrow> error + unit" where
  "check_required self =
     bindE (py_get (config self) ''moves'' PNone) (\<lambda>moves.
     bindE (py_get (config self) ''main-notification-endpoint'' PNone) (\<lambda>endpoint.
       if PNone \<in> set [cross_account_access_role self, config self,
                        deployment_account_region self, organization_id self,
                        target_regions self, moves, endpoint]
       then Inl InvalidConfigError else Inr ()))"

text \<open>\<^verbatim>\<open>_validate\<close>, lines 68 to 78: only the failed assertion is turned into
  \<open>InvalidConfigError\<close>; any other exception of the block passes through.\<close>

definition check_scp :: "Config \<Rightarrow> error + unit" where
  "check_scp self =
     bindE (py_get (config self) ''scp'' PNone) (\<lambda>scp.
       if truthy scp then
         bindE (py_get (config self) ''scp'' PNone) (\<lambda>scp'.
         bindE (py_get scp' ''keep-default-scp'' PNone) (\<lambda>keep.
           if keep \<in> set [PStr ''enabled'', PStr ''disabled'']
           then Inr () else Inl InvalidConfigError))
       else Inr ())"

text \<open>\<^verbatim>\<open>_validate\<close>, lines 80 to 86: unpacking \<^verbatim>\<open>[x] = []\<close> raises \<^verbatim>\<open>ValueError\<close>.\<close>

definition single_deployment_region :: "Config \<Rightarrow> error + Config" where
  "single_deployment_region self =
     (case deployment_account_region self of
        PList rs \<Rightarrow>
          if 1 < length rs then Inl InvalidConfigError
          else (case rs of
                  [r] \<Rightarrow> Inr (self\<lparr>deployment_account_region := r\<rparr>)
                | _ \<Rightarrow> Inl ValueError)
      | _ \<Rightarrow> Inr self)"

text \<open>\<^verbatim>\<open>_validate\<close>, lines 88 and 89.\<close>

definition listify_target_regions :: "Config \<Rightarrow> Config" where
  "listify_target_regions self =
     (case target_regions self of
        PList ts \<Rightarrow> self
      | t \<Rightarrow> self\<lparr>target_regions := PList [t]\<rparr>)"

definition validate :: "Config \<Rightarrow> error + Config" where
  "validate self =
     bindE (check_required self) (\<lambda>u.
     bindE (check_scp self) (\<lambda>u.
     bindE (single_deployment_region self) (\<lambda>self.
       Inr (listify_target_regions self))))"

subsection \<open>Parsing\<close>

text \<open>\<^verbatim>\<open>_configure_default_extensions_behavior\<close>: the set difference is taken once, then
  each missing name gets its entry, appended to the mapping. (A Python set iterates in no
  fixed order; with the one known extension there is one order.)\<close>

definition configure_default_extensions_behavior :: "Config \<Rightarrow> error + Config" where
  "configure_default_extensions_behavior self =
     (case extensions self of
        PDict x \<Rightarrow>
          Inr (self\<lparr>extensions :=
                 PDict (x @ map (\<lambda>n. (n, PDict [(''enabled'', PBool False)]))
                                (remdups (filter (\<lambda>n. n \<notin> set (map fst x))
                                                 AVAILABLE_EXTENSIONS)))\<rparr>)
      | _ \<Rightarrow> Inl AttributeError)"

text \<open>\<^verbatim>\<open>self.extensions\<close> is the very mapping stored under \<^verbatim>\<open>extensions\<close> in the document
  (when the key is there; the default \<^verbatim>\<open>{}\<close> is a fresh object), so the entries added in
  place show in \<^verbatim>\<open>config_contents\<close> too.\<close>

definition alias_extensions :: "Config \<Rightarrow> Config" where
  "alias_extensions self =
     (case config_contents self of
        PDict d \<Rightarrow>
          self\<lparr>config_contents :=
                 PDict (map (\<lambda>kv. if fst kv = ''extensions'' then (fst kv, extensions self)
                                   else kv) d)\<rparr>
      | _ \<Rightarrow> self)"

text \<open>\<^verbatim>\<open>_parse_config\<close>, lines 103 to 129: everything before the call of \<^verbatim>\<open>_validate\<close>.\<close>

definition derive_fields :: "Config \<Rightarrow> error + Config" where
  "derive_fields self =
     bindE (py_get (config_contents self) ''regions'' (PDict [])) (\<lambda>r.
     bindE (py_get r ''targets'' (PList [])) (\<lambda>regions.
     bindE (py_get (config_contents self) ''regions'' (PDict [])) (\<lambda>r'.
     bindE (py_get r' ''deployment-account'' PNone) (\<lambda>deployment.
     bindE (py_getitem regions (PInt 0)) (\<lambda>first.
     bindE (py_get (config_contents self) ''roles'' (PDict [])) (\<lambda>roles.
     bindE (py_get roles ''cross-account-access'' PNone) (\<lambda>role.
     bindE (py_get (config_contents self) ''config'' PNone) (\<lambda>conf.
     bindE (py_get conf ''protected'' (PList [])) (\<lambda>prot.
     bindE (py_get conf ''main-notification-endpoint'' PNone) (\<lambda>endpoints.
     bindE (py_getitem endpoints (PInt 0)) (\<lambda>endpoint.
     bindE (py_get endpoint ''type'' PNone) (\<lambda>adf_config_notification_type.
     bindE (py_get conf ''main-notification-endpoint'' PNone) (\<lambda>endpoints'.
     bindE (py_getitem endpoints' (PInt 0)) (\<lambda>endpoint'.
     bindE (py_get endpoint' ''target'' PNone) (\<lambda>target.
     bindE (py_get (config_contents self) ''extensions'' (PDict [])) (\<lambda>exts.
     bindE (configure_default_extensions_behavior
              (self\<lparr>deployment_account_region := deployment,
                     target_regions := (if first = PNone then PList [] else regions),
                     cross_account_access_role := role,
                     config := conf,
                     protected := prot,
                     notification_type :=
                       (if adf_config_notification_type = PStr ''slack''
                        then PStr ''lambda'' else PStr ''email''),
                     notification_endpoint := target,
                     notification_channel :=
                       (if (if adf_config_notification_type = PStr ''slack''
                            then PStr ''lambda'' else PStr ''email'') = PStr ''email''
                        then PNone else target),
                     extensions := exts\<rparr>)) (\<lambda>self.
       Inr (alias_extensions self))))))))))))))))))"

definition parse_config :: "Config \<Rightarrow> error + Config" where
  "parse_config self = bindE (derive_fields self) validate"

text \<open>\<^verbatim>\<open>_load_config_file\<close>: \<open>yaml_load\<close> stands for opening the file at the path and parsing
  it.\<close>

definition load_config_file :: "(string \<Rightarrow> error + pyval) \<Rightarrow> Config \<Rightarrow> error + Config" where
  "load_config_file yaml_load self =
     bindE (yaml_load (config_path self)) (\<lambda>doc.
       parse_config (self\<lparr>config_contents := doc\<rparr>))"

text \<open>\<^verbatim>\<open>__init__\<close>, lines 28 to 43. \<open>environ\<close> is \<^verbatim>\<open>os.environ\<close>; an argument that is \<^verbatim>\<open>None\<close>
  (or an empty path) is replaced by its default.\<close>

definition init_fields ::
  "(string \<Rightarrow> string option) \<Rightarrow> store option \<Rightarrow> string option \<Rightarrow> error + Config" where
  "init_fields environ parameter_store path =
     bindE (case parameter_store of
              Some client \<Rightarrow> Inr client
            | None \<Rightarrow> (case environ ''AWS_REGION'' of
                         None \<Rightarrow> Inl KeyError
                       | Some region \<Rightarrow> Inr (ParameterStore (PStr region)))) (\<lambda>client.
     bindE (case environ ''ORGANIZATION_ID'' of
              None \<Rightarrow> Inl KeyError
            | Some org \<Rightarrow> Inr (PStr org)) (\<lambda>org.
       Inr \<lparr>parameters_client = client,
            config_path = (case path of
                             None \<Rightarrow> ''./adfconfig.yml''
                           | Some p \<Rightarrow> if p = [] then ''./adfconfig.yml'' else p),
            organization_id = org,
            client_deployment_region = None,
            notification_type = PNone,
            notification_endpoint = PNone,
            config_contents = PNone,
            config = PNone,
            deployment_account_region = PNone,
            notification_channel = PNone,
            protected = PNone,
            target_regions = PList [],
            cross_account_access_role = PNone,
            extensions = PNone\<rparr>))"

definition Config_init ::
  "(string \<Rightarrow> string option) \<Rightarrow> (string \<Rightarrow> error + pyval) \<Rightarrow> store option \<Rightarrow> string option
     \<Rightarrow> error + Config" where
  "Config_init environ yaml_load parameter_store path =
     bindE (init_fields environ parameter_store path) (load_config_file yaml_load)"

section \<open>The persister\<close>

text \<open>A call \<^verbatim>\<open>client.put_parameter(key, value)\<close>. The parameter store is outside the module;
  what the module does to it is the sequence of calls it makes.\<close>

type_synonym put_call = "store \<times> string \<times> pyval"

text \<open>\<^verbatim>\<open>self.__dict__.items()\<close>: the attributes in the order of their first assignment.\<close>

definition dict_items :: "Config \<Rightarrow> (string \<times> attr) list" where
  "dict_items self =
     [(''parameters_client'', Obj (parameters_client self)),
      (''config_path'', Val (PStr (config_path self))),
      (''organization_id'', Val (organization_id self)),
      (''client_deployment_region'',
         (case client_deployment_region self of None \<Rightarrow> Val PNone | Some c \<Rightarrow> Obj c)),
      (''notification_type'', Val (notification_type self)),
      (''notification_endpoint'', Val (notification_endpoint self)),
      (''config_contents'', Val (config_contents self)),
      (''config'', Val (config self)),
      (''deployment_account_region'', Val (deployment_account_region self)),
      (''notification_channel'', Val (notification_channel self)),
      (''protected'', Val (protected self)),
      (''target_regions'', Val (target_regions self)),
      (''cross_account_access_role'', Val (cross_account_access_role self)),
      (''extensions'', Val (extensions self))]"

text \<open>The names \<^verbatim>\<open>_store_config\<close> skips, lines 157 to 166.\<close>

definition excluded_keys :: "string list" where
  "excluded_keys =
     [''client'', ''client_deployment_region'', ''parameters_client'', ''config_contents'',
      ''config_path'', ''notification_endpoint'', ''notification_type'', ''extensions'']"

text \<open>The first loop of \<^verbatim>\<open>_store_config\<close>, lines 156 to 167: the calls it makes.\<close>

fun put_fields :: "(attr \<Rightarrow> string) \<Rightarrow> store \<Rightarrow> (string \<times> attr) list \<Rightarrow> put_call list" where
  "put_fields render client [] = []"
| "put_fields render client ((key, v) # rest) =
     (if key \<notin> set excluded_keys
      then (client, key, PStr (py_str render v)) # put_fields render client rest
      else put_fields render client rest)"

text \<open>The inner loop, lines 170 to 174, over the values \<open>as\<close> that iterating \<open>attributes\<close>
  yields: the calls made, and the exception that ended the loop if one did.\<close>

fun put_attributes ::
  "(attr \<Rightarrow> string) \<Rightarrow> store \<Rightarrow> string \<Rightarrow> pyval \<Rightarrow> pyval list \<Rightarrow> put_call list \<times> error option" where
  "put_attributes render client extension attributes [] = ([], None)"
| "put_attributes render client extension attributes (attribute # rest) =
     (case py_getitem attributes attribute of
        Inl e \<Rightarrow> ([], Some e)
      | Inr v \<Rightarrow>
          (case put_attributes render client extension attributes rest of
             (calls, outcome) \<Rightarrow>
               ((client,
                 ''/adf/extensions/'' @ extension @ ''/'' @ py_str render (Val attribute),
                 PStr (py_str render (Val v))) # calls, outcome)))"

text \<open>The outer loop, lines 169 to 174.\<close>

fun put_extensions ::
  "(attr \<Rightarrow> string) \<Rightarrow> store \<Rightarrow> (string \<times> pyval) list \<Rightarrow> put_call list \<times> error option" where
  "put_extensions render client [] = ([], None)"
| "put_extensions render client ((extension, attributes) # rest) =
     (case py_iter attributes of
        Inl e \<Rightarrow> ([], Some e)
      | Inr as \<Rightarrow>
          (case put_attributes render client extension attributes as of
             (calls, Some e) \<Rightarrow> (calls, Some e)
           | (calls, None) \<Rightarrow>
               (case put_extensions render client rest of
                  (calls', outcome) \<Rightarrow> (calls @ calls', outcome))))"

text \<open>\<^verbatim>\<open>_store_config\<close>: the calls made on the primary client and how the method ended.\<close>

definition store_config_priv :: "(attr \<Rightarrow> string) \<Rightarrow> Config \<Rightarrow> put_call list \<times> error option" where
  "store_config_priv render self =
     (let calls = put_fields render (parameters_client self) (dict_items self) in
      case extensions self of
        PDict x \<Rightarrow>
          (case put_extensions render (parameters_client self) x of
             (calls', outcome) \<Rightarrow> (calls @ calls', outcome))
      | _ \<Rightarrow> (calls, Some AttributeError))"

text \<open>\<^verbatim>\<open>_store_cross_region_config\<close>: the new client is kept in the instance; \<open>adf_version\<close> is
  the module constant \<^verbatim>\<open>ADF_VERSION\<close>.\<close>

definition store_cross_region_config :: "string \<Rightarrow> Config \<Rightarrow> Config \<times> put_call list" where
  "store_cross_region_config adf_version self =
     (let client = ParameterStore (deployment_account_region self) in
      (self\<lparr>client_deployment_region := Some client\<rparr>,
       [(client, ''adf_version'', PStr adf_version),
        (client, ''cross_account_access_role'', cross_account_access_role self)]))"

text \<open>\<^verbatim>\<open>store_config\<close>: the instance afterwards, every call made, and the exception if one
  ended it.\<close>

definition store_config ::
  "string \<Rightarrow> (attr \<Rightarrow> string) \<Rightarrow> Config \<Rightarrow> Config \<times> put_call list \<times> error option" where
  "store_config adf_version render self =
     (case store_config_priv render self of
        (calls, Some e) \<Rightarrow> (self, calls, Some e)
      | (calls, None) \<Rightarrow>
          (case store_cross_region_config adf_version self of
             (self', calls') \<Rightarrow> (self', calls @ calls', None)))"

section \<open>Concrete inputs\<close>

text \<open>An environment, a loader that returns a given document, and a document of the schema
  with its varying parts as parameters; the theorems below are run on them.\<close>

definition example_environ :: "string \<Rightarrow> string option" where
  "example_environ = [''AWS_REGION'' \<mapsto> ''eu-west-1'', ''ORGANIZATION_ID'' \<mapsto> ''o-example'']"

definition load_of :: "pyval \<Rightarrow> string \<Rightarrow> error + pyval" where
  "load_of doc path = Inr doc"

definition example_config :: "(string \<times> pyval) list \<Rightarrow> pyval" where
  "example_config extra =
     PDict ([(''main-notification-endpoint'',
                PList [PDict [(''type'', PStr ''email''), (''target'', PStr ''a@b.com'')]]),
             (''moves'', PList [PDict [(''name'', PStr ''to-root''), (''action'', PStr ''safe'')]])]
            @ extra)"

definition example_document :: "pyval \<Rightarrow> pyval \<Rightarrow> pyval \<Rightarrow> pyval" where
  "example_document targets deployment conf =
     PDict [(''roles'', PDict [(''cross-account-access'', PStr ''adf-role'')]),
            (''regions'', PDict [(''deployment-account'', deployment), (''targets'', targets)]),
            (''config'', conf)]"

text \<open>The instance as \<^verbatim>\<open>__init__\<close> leaves it before the file is loaded, in that environment.\<close>

definition example_self :: Config where
  "example_self =
     \<lparr>parameters_client = ParameterStore (PStr ''eu-west-1''),
      config_path = ''./adfconfig.yml'',
      organization_id = PStr ''o-example'',
      client_deployment_region = None,
      notification_type = PNone,
      notification_endpoint = PNone,
      config_contents = PNone,
      config = PNone,
      deployment_account_region = PNone,
      notification_channel = PNone,
      protected = PNone,
      target_regions = PList [],
      cross_account_access_role = PNone,
      extensions = PNone\<rparr>"

text \<open>A rendering of values other than strings, and the model that construction builds from
  the example document.\<close>

definition example_render :: "attr \<Rightarrow> string" where
  "example_render a =
     (case a of
        Val PNone \<Rightarrow> ''None''
      | Val (PBool b) \<Rightarrow> (if b then ''True'' else ''False'')
      | _ \<Rightarrow> ''(a value)'')"

definition example_model :: Config where
  "example_model =
     example_self
       \<lparr>notification_type := PStr ''email'',
        notification_endpoint := PStr ''a@b.com'',
        config_contents :=
          example_document (PList [PStr ''eu-west-1'']) (PStr ''us-east-1'') (example_config []),
        config := example_config [],
        deployment_account_region := PStr ''us-east-1'',
        protected := PList [],
        target_regions := PList [PStr ''eu-west-1''],
        cross_account_access_role := PStr ''adf-role'',
        extensions := PDict [(''terraform'', PDict [(''enabled'', PBool False)])]\<rparr>"

section \<open>Basic facts\<close>

lemma bindE_Inl [simp]: "bindE (Inl e) f = Inl e"
  by (simp add: bindE_def)

lemma bindE_Inr [simp]: "bindE (Inr x) f = f x"
  by (simp add: bindE_def)

lemma bindE_eq_Inr: "(bindE m f = Inr y) = (\<exists>x. m = Inr x \<and> f x = Inr y)"
  by (cases m) simp_all

lemma py_get_eq_Inr:
  "(py_get v k dflt = Inr w) =
     (\<exists>d. v = PDict d \<and> w = (case map_of d k of None \<Rightarrow> dflt | Some u \<Rightarrow> u))"
  by (cases v) auto

lemma Config_init_parse:
  assumes "init_fields environ parameter_store path = Inr c0"
      and "yaml_load (config_path c0) = Inr doc"
  shows "Config_init environ yaml_load parameter_store path =
           bindE (derive_fields (c0\<lparr>config_contents := doc\<rparr>)) validate"
  using assms by (simp add: Config_init_def load_config_file_def parse_config_def)

lemma Config_init_InrD:
  assumes "Config_init environ yaml_load parameter_store path = Inr cfg"
  obtains c0 doc c1 where "init_fields environ parameter_store path = Inr c0"
    and "yaml_load (config_path c0) = Inr doc"
    and "derive_fields (c0\<lparr>config_contents := doc\<rparr>) = Inr c1"
    and "validate c1 = Inr cfg"
  using assms
  by (auto simp: Config_init_def load_config_file_def parse_config_def bindE_eq_Inr)

lemma py_index_Nil [simp]: "py_index [] i = Inl IndexError"
  by (simp add: py_index_def)

lemma py_index_Cons_0 [simp]: "py_index (x # xs) 0 = Inr x"
  by (simp add: py_index_def)

lemma py_getitem_first_Nil [simp]: "py_getitem (PList []) (PInt 0) = Inl IndexError"
  by (simp add: py_index_def)

lemma py_getitem_first_Cons [simp]: "py_getitem (PList (x # xs)) (PInt 0) = Inr x"
  by (simp add: py_index_def)

lemma py_getitem_first_Inr:
  "(py_getitem v (PInt 0) = Inr w) =
     ((\<exists>xs. v = PList (w # xs)) \<or> (\<exists>c cs. v = PStr (c # cs) \<and> w = PStr [c]))"
proof (cases v)
  case (PList xs)
  then show ?thesis by (cases xs) (auto simp: py_index_def)
next
  case (PStr s)
  then show ?thesis by (cases s) (auto simp: py_index_def)
qed auto

text \<open>What a completed parse has read from the document.\<close>

lemma derive_fields_InrD:
  assumes "derive_fields self = Inr c1"
  obtains d r ro c e rest x t first where
    "config_contents self = PDict d"
    "(case map_of d ''regions'' of None \<Rightarrow> PDict [] | Some v \<Rightarrow> v) = PDict r"
    "(case map_of r ''targets'' of None \<Rightarrow> PList [] | Some v \<Rightarrow> v) = t"
    "py_getitem t (PInt 0) = Inr first"
    "(case map_of d ''roles'' of None \<Rightarrow> PDict [] | Some v \<Rightarrow> v) = PDict ro"
    "(case map_of d ''config'' of None \<Rightarrow> PNone | Some v \<Rightarrow> v) = PDict c"
    "(case map_of c ''main-notification-endpoint'' of None \<Rightarrow> PNone | Some v \<Rightarrow> v) = PList (PDict e # rest)"
    "(case map_of d ''extensions'' of None \<Rightarrow> PDict [] | Some v \<Rightarrow> v) = PDict x"
    "deployment_account_region c1 = (case map_of r ''deployment-account'' of None \<Rightarrow> PNone | Some v \<Rightarrow> v)"
    "target_regions c1 = (if first = PNone then PList [] else t)"
    "cross_account_access_role c1 = (case map_of ro ''cross-account-access'' of None \<Rightarrow> PNone | Some v \<Rightarrow> v)"
    "config c1 = PDict c"
    "protected c1 = (case map_of c ''protected'' of None \<Rightarrow> PList [] | Some v \<Rightarrow> v)"
    "notification_type c1 = (if map_of e ''type'' = Some (PStr ''slack'') then PStr ''lambda'' else PStr ''email'')"
    "notification_endpoint c1 = (case map_of e ''target'' of None \<Rightarrow> PNone | Some v \<Rightarrow> v)"
    "notification_channel c1 = (if map_of e ''type'' = Some (PStr ''slack'') then (case map_of e ''target'' of None \<Rightarrow> PNone | Some v \<Rightarrow> v) else PNone)"
    "extensions c1 = PDict (x @ map (\<lambda>n. (n, PDict [(''enabled'', PBool False)]))
                                (remdups (filter (\<lambda>n. n \<notin> set (map fst x)) AVAILABLE_EXTENSIONS)))"
    "organization_id c1 = organization_id self"
    "parameters_client c1 = parameters_client self"
    "client_deployment_region c1 = client_deployment_region self"
    "config_path c1 = config_path self"
proof -
  from assms obtain r t r' dep first roles role conf prot m ent ty m' ent' target exts c2
    where h: "py_get (config_contents self) ''regions'' (PDict []) = Inr r"
      "py_get r ''targets'' (PList []) = Inr t"
      "py_get (config_contents self) ''regions'' (PDict []) = Inr r'"
      "py_get r' ''deployment-account'' PNone = Inr dep"
      "py_getitem t (PInt 0) = Inr first"
      "py_get (config_contents self) ''roles'' (PDict []) = Inr roles"
      "py_get roles ''cross-account-access'' PNone = Inr role"
      "py_get (config_contents self) ''config'' PNone = Inr conf"
      "py_get conf ''protected'' (PList []) = Inr prot"
      "py_get conf ''main-notification-endpoint'' PNone = Inr m"
      "py_getitem m (PInt 0) = Inr ent"
      "py_get ent ''type'' PNone = Inr ty"
      "py_get conf ''main-notification-endpoint'' PNone = Inr m'"
      "py_getitem m' (PInt 0) = Inr ent'"
      "py_get ent' ''target'' PNone = Inr target"
      "py_get (config_contents self) ''extensions'' (PDict []) = Inr exts"
    and b: "configure_default_extensions_behavior
              (self\<lparr>deployment_account_region := dep,
                     target_regions := (if first = PNone then PList [] else t),
                     cross_account_access_role := role,
                     config := conf,
                     protected := prot,
                     notification_type :=
                       (if ty = PStr ''slack''
                        then PStr ''lambda'' else PStr ''email''),
                     notification_endpoint := target,
                     notification_channel :=
                       (if (if ty = PStr ''slack''
                            then PStr ''lambda'' else PStr ''email'') = PStr ''email''
                        then PNone else target),
                     extensions := exts\<rparr>) = Inr c2"
    and c: "c1 = alias_extensions c2"
    unfolding derive_fields_def bindE_eq_Inr
    by (elim exE conjE) (rule that, assumption+, simp)
  from h(1) obtain d where d: "config_contents self = PDict d"
    and r: "r = (case map_of d ''regions'' of None \<Rightarrow> PDict [] | Some v \<Rightarrow> v)"
    by (auto simp: py_get_eq_Inr)
  from h(3) d r have r': "r' = r"
    by simp
  from h(2) obtain rr where rr: "r = PDict rr"
    and t: "t = (case map_of rr ''targets'' of None \<Rightarrow> PList [] | Some v \<Rightarrow> v)"
    by (auto simp: py_get_eq_Inr)
  from h(4) r' rr have dep: "dep = (case map_of rr ''deployment-account'' of None \<Rightarrow> PNone | Some v \<Rightarrow> v)"
    by simp
  from h(6) d obtain ro where ro: "(case map_of d ''roles'' of None \<Rightarrow> PDict [] | Some v \<Rightarrow> v) = PDict ro"
    and roles: "roles = PDict ro"
    using h(7) by (auto simp: py_get_eq_Inr)
  from h(7) roles have role: "role = (case map_of ro ''cross-account-access'' of None \<Rightarrow> PNone | Some v \<Rightarrow> v)"
    by simp
  from h(8) d obtain c where c': "(case map_of d ''config'' of None \<Rightarrow> PNone | Some v \<Rightarrow> v) = PDict c"
    and conf: "conf = PDict c"
    using h(9) by (auto simp: py_get_eq_Inr)
  from h(9) conf have prot: "prot = (case map_of c ''protected'' of None \<Rightarrow> PList [] | Some v \<Rightarrow> v)"
    by simp
  from h(10) conf have m: "m = (case map_of c ''main-notification-endpoint'' of None \<Rightarrow> PNone | Some v \<Rightarrow> v)"
    by simp
  from h(13) conf m have m': "m' = m"
    by simp
  from h(14) h(11) m' have ent': "ent' = ent"
    by simp
  from h(12) obtain e where e: "ent = PDict e"
    and ty: "ty = (case map_of e ''type'' of None \<Rightarrow> PNone | Some v \<Rightarrow> v)"
    by (auto simp: py_get_eq_Inr)
  from h(11) e obtain rest where rest: "m = PList (PDict e # rest)"
    by (auto simp: py_getitem_first_Inr)
  from h(15) ent' e have target: "target = (case map_of e ''target'' of None \<Rightarrow> PNone | Some v \<Rightarrow> v)"
    by simp
  have slack: "(ty = PStr ''slack'') = (map_of e ''type'' = Some (PStr ''slack''))"
    using ty by (auto split: option.splits)
  from b obtain x where x: "exts = PDict x"
    by (auto simp: configure_default_extensions_behavior_def split: pyval.splits)
  from h(16) d x have x': "(case map_of d ''extensions'' of None \<Rightarrow> PDict [] | Some v \<Rightarrow> v) = PDict x"
    by simp
  from b x have c2: "c2 = self\<lparr>deployment_account_region := dep,
                     target_regions := (if first = PNone then PList [] else t),
                     cross_account_access_role := role,
                     config := conf,
                     protected := prot,
                     notification_type :=
                       (if ty = PStr ''slack''
                        then PStr ''lambda'' else PStr ''email''),
                     notification_endpoint := target,
                     notification_channel :=
                       (if (if ty = PStr ''slack''
                            then PStr ''lambda'' else PStr ''email'') = PStr ''email''
                        then PNone else target),
                     extensions := PDict (x @ map (\<lambda>n. (n, PDict [(''enabled'', PBool False)]))
                                (remdups (filter (\<lambda>n. n \<notin> set (map fst x)) AVAILABLE_EXTENSIONS)))\<rparr>"
    by (simp add: configure_default_extensions_behavior_def)
  show ?thesis
  proof (rule that [of d rr t first ro c e rest x])
    show "config_contents self = PDict d" by (rule d)
    show "(case map_of d ''regions'' of None \<Rightarrow> PDict [] | Some v \<Rightarrow> v) = PDict rr"
      using r rr by simp
    show "(case map_of rr ''targets'' of None \<Rightarrow> PList [] | Some v \<Rightarrow> v) = t"
      using t by simp
    show "py_getitem t (PInt 0) = Inr first" by (rule h(5))
    show "(case map_of d ''roles'' of None \<Rightarrow> PDict [] | Some v \<Rightarrow> v) = PDict ro" by (rule ro)
    show "(case map_of d ''config'' of None \<Rightarrow> PNone | Some v \<Rightarrow> v) = PDict c" by (rule c')
    show "(case map_of c ''main-notification-endpoint'' of None \<Rightarrow> PNone | Some v \<Rightarrow> v) = PList (PDict e # rest)"
      using m rest by simp
    show "(case map_of d ''extensions'' of None \<Rightarrow> PDict [] | Some v \<Rightarrow> v) = PDict x" by (rule x')
  qed (simp_all add: c c2 alias_extensions_def d dep role conf prot slack target)
qed

lemmas run_defs =
  Config_init_def init_fields_def load_config_file_def parse_config_def derive_fields_def
  configure_default_extensions_behavior_def alias_extensions_def AVAILABLE_EXTENSIONS_def
  validate_def check_required_def check_scp_def single_deployment_region_def
  listify_target_regions_def example_environ_def load_of_def example_document_def
  example_config_def example_self_def

lemma init_example: "init_fields example_environ None None = Inr example_self"
  by (simp add: init_fields_def example_environ_def example_self_def)

section \<open>Required properties\<close>

text \<open>
  Claim C1 says that a document in which \<^verbatim>\<open>config\<close> (or any other required property) is null
  or absent is rejected with \<open>InvalidConfigError\<close>. \<^verbatim>\<open>_validate\<close> does test \<^verbatim>\<open>self.config\<close> for
  \<^verbatim>\<open>None\<close>, but line 112 has already called \<^verbatim>\<open>self.config.get\<close>: on the document below, which
  has its regions and its role and no \<^verbatim>\<open>config\<close>, construction ends with \<open>AttributeError\<close>.
\<close>

theorem missing_config_raises_AttributeError:
  "Config_init example_environ
     (load_of (PDict [(''roles'', PDict [(''cross-account-access'', PStr ''adf-role'')]),
                      (''regions'', PDict [(''deployment-account'', PStr ''us-east-1''),
                                           (''targets'', PList [PStr ''eu-west-1''])])]))
     None None = Inl AttributeError"
  by (simp add: run_defs)

text \<open>The same happens one step later when \<^verbatim>\<open>config\<close> is there and
  \<^verbatim>\<open>main-notification-endpoint\<close> is not: line 116 subscripts \<^verbatim>\<open>None\<close>.\<close>

lemma missing_endpoint_raises_TypeError:
  "Config_init example_environ
     (load_of (example_document (PList [PStr ''eu-west-1'']) (PStr ''us-east-1'')
                 (PDict [(''moves'', PList [])])))
     None None = Inl TypeError"
  by (simp add: run_defs)

text \<open>The properties whose absence does reach the validator: once parsing has completed, a
  missing role, deployment region or \<^verbatim>\<open>moves\<close> is rejected as intended.\<close>

lemma missing_property_rejected:
  assumes "init_fields environ parameter_store path = Inr c0"
      and "yaml_load (config_path c0) = Inr doc"
      and "derive_fields (c0\<lparr>config_contents := doc\<rparr>) = Inr c1"
      and "cross_account_access_role c1 = PNone \<or> deployment_account_region c1 = PNone \<or>
           py_get (config c1) ''moves'' PNone = Inr PNone"
  shows "Config_init environ yaml_load parameter_store path = Inl InvalidConfigError"
proof -
  from assms(3) obtain c where "config c1 = PDict c"
    by (rule derive_fields_InrD)
  with assms(4) have "check_required c1 = Inl InvalidConfigError"
    by (auto simp: check_required_def)
  with assms(1-3) show ?thesis
    by (simp add: Config_init_parse validate_def)
qed

section \<open>Target regions that are missing\<close>

text \<open>
  Claim C10: when \<^verbatim>\<open>regions.targets\<close> is absent (with \<^verbatim>\<open>regions\<close> absent too, or a mapping
  without the key) or is the empty sequence, the lookup of line 103 yields the empty
  sequence, line 107 reads its first element, and construction ends with \<open>IndexError\<close>
  before the validator runs, whatever else the document holds.
\<close>

theorem missing_targets_raise_IndexError:
  assumes "init_fields environ parameter_store path = Inr c0"
      and "yaml_load (config_path c0) = Inr (PDict d)"
      and "map_of d ''regions'' = None \<or>
           (\<exists>r. map_of d ''regions'' = Some (PDict r) \<and>
                (map_of r ''targets'' = None \<or> map_of r ''targets'' = Some (PList [])))"
  shows "Config_init environ yaml_load parameter_store path = Inl IndexError"
proof -
  have "derive_fields (c0\<lparr>config_contents := PDict d\<rparr>) = Inl IndexError"
    using assms(3) by (auto simp: derive_fields_def)
  then show ?thesis
    using assms(1,2) by (simp add: Config_init_parse)
qed

theorem missing_targets_raise_IndexError_witness:
  "Config_init example_environ (load_of (PDict [])) None None = Inl IndexError \<and>
   Config_init example_environ
     (load_of (PDict [(''regions'', PDict [(''targets'', PList [])])])) None None = Inl IndexError"
  using missing_targets_raise_IndexError [OF init_example, of "load_of (PDict [])" "[]"]
    missing_targets_raise_IndexError [OF init_example,
      of "load_of (PDict [(''regions'', PDict [(''targets'', PList [])])])"
         "[(''regions'', PDict [(''targets'', PList [])])]"]
  by (simp add: load_of_def)

lemma validate_after_checks:
  assumes "check_required c1 = Inr ()" and "check_scp c1 = Inr ()"
  shows "validate c1 = bindE (single_deployment_region c1) (\<lambda>self. Inr (listify_target_regions self))"
  using assms by (simp add: validate_def)

lemma deployment_account_region_listify [simp]:
  "deployment_account_region (listify_target_regions self) = deployment_account_region self"
  by (simp add: listify_target_regions_def split: pyval.splits)

section \<open>The deployment account region\<close>

text \<open>
  Claim C3: take a document that is valid otherwise, that is, one whose parse reaches the
  validator and passes its tests for required properties and for the \<^verbatim>\<open>scp\<close> setting. If
  \<^verbatim>\<open>regions.deployment-account\<close> is a sequence of more than one element, construction fails
  with \<open>InvalidConfigError\<close>; if it is a sequence of one element, construction succeeds and
  \<open>deployment_account_region\<close> is that element.
\<close>

theorem deployment_account_single:
  assumes "init_fields environ parameter_store path = Inr c0"
      and "yaml_load (config_path c0) = Inr (PDict d)"
      and "map_of d ''regions'' = Some (PDict r)"
      and "map_of r ''deployment-account'' = Some (PList rs)"
      and "derive_fields (c0\<lparr>config_contents := PDict d\<rparr>) = Inr c1"
      and "check_required c1 = Inr ()"
      and "check_scp c1 = Inr ()"
  shows "(1 < length rs \<longrightarrow>
            Config_init environ yaml_load parameter_store path = Inl InvalidConfigError) \<and>
         (\<forall>x. rs = [x] \<longrightarrow>
            (\<exists>cfg. Config_init environ yaml_load parameter_store path = Inr cfg \<and>
                   deployment_account_region cfg = x))"
proof -
  from assms(5) obtain d' r' where
      "config_contents (c0\<lparr>config_contents := PDict d\<rparr>) = PDict d'"
      "(case map_of d' ''regions'' of None \<Rightarrow> PDict [] | Some v \<Rightarrow> v) = PDict r'"
      "deployment_account_region c1 =
         (case map_of r' ''deployment-account'' of None \<Rightarrow> PNone | Some v \<Rightarrow> v)"
    by (rule derive_fields_InrD)
  with assms(3,4) have dep: "deployment_account_region c1 = PList rs"
    by simp
  have run: "Config_init environ yaml_load parameter_store path =
               bindE (single_deployment_region c1) (\<lambda>self. Inr (listify_target_regions self))"
    using assms(1,2,5,6,7) by (simp add: Config_init_parse validate_after_checks)
  show ?thesis
    unfolding run by (auto simp: single_deployment_region_def dep)
qed

text \<open>An empty sequence is neither: the unpacking of line 86 raises \<open>ValueError\<close>.\<close>

lemma empty_deployment_account_ValueError:
  "Config_init example_environ
     (load_of (example_document (PList [PStr ''eu-west-1'']) (PList []) (example_config [])))
     None None = Inl ValueError"
  by (simp add: run_defs)

text \<open>The theorem at \<^verbatim>\<open>["us-east-1", "us-west-2"]\<close> and at \<^verbatim>\<open>["us-east-1"]\<close>.\<close>

theorem deployment_account_single_witness:
  "Config_init example_environ
     (load_of (example_document (PList [PStr ''eu-west-1''])
                 (PList [PStr ''us-east-1'', PStr ''us-west-2'']) (example_config [])))
     None None = Inl InvalidConfigError \<and>
   (\<exists>cfg. Config_init example_environ
            (load_of (example_document (PList [PStr ''eu-west-1''])
                        (PList [PStr ''us-east-1'']) (example_config [])))
            None None = Inr cfg \<and>
          deployment_account_region cfg = PStr ''us-east-1'')"
proof -
  let ?regions = "\<lambda>rs. [(''deployment-account'', PList rs), (''targets'', PList [PStr ''eu-west-1''])]"
  let ?d = "\<lambda>rs. [(''roles'', PDict [(''cross-account-access'', PStr ''adf-role'')]),
                  (''regions'', PDict (?regions rs)), (''config'', example_config [])]"
  let ?doc = "\<lambda>rs. example_document (PList [PStr ''eu-west-1'']) (PList rs) (example_config [])"
  have doc: "?doc rs = PDict (?d rs)" for rs
    by (simp add: example_document_def)
  have load: "load_of (?doc rs) (config_path example_self) = Inr (PDict (?d rs))" for rs
    by (simp add: load_of_def doc)
  have "\<exists>c1. derive_fields (example_self\<lparr>config_contents := PDict (?d rs)\<rparr>) = Inr c1 \<and>
          check_required c1 = Inr () \<and> check_scp c1 = Inr ()" for rs
    by (simp add: run_defs)
  then obtain c1 where c1: "derive_fields (example_self\<lparr>config_contents := PDict (?d rs)\<rparr>) = Inr (c1 rs)"
      "check_required (c1 rs) = Inr ()" "check_scp (c1 rs) = Inr ()" for rs
    by metis
  have regions: "map_of (?d rs) ''regions'' = Some (PDict (?regions rs))"
    "map_of (?regions rs) ''deployment-account'' = Some (PList rs)" for rs
    by simp_all
  let ?two = "[PStr ''us-east-1'', PStr ''us-west-2'']"
  let ?one = "[PStr ''us-east-1'']"
  show ?thesis
    using deployment_account_single [where yaml_load = "load_of (?doc ?two)",
            OF init_example load [of ?two] regions [of ?two] c1 [of ?two]]
      deployment_account_single [where yaml_load = "load_of (?doc ?one)",
            OF init_example load [of ?one] regions [of ?one] c1 [of ?one]]
    by simp
qed


section \<open>The scp setting\<close>






section \<open>What validation keeps\<close>

lemma validate_InrD:
  assumes "validate c1 = Inr cfg"
  obtains c2 where "check_required c1 = Inr ()" and "check_scp c1 = Inr ()"
    and "single_deployment_region c1 = Inr c2" and "cfg = listify_target_regions c2"
  using assms by (auto simp: validate_def bindE_eq_Inr)

lemma single_deployment_region_InrD:
  assumes "single_deployment_region c1 = Inr c2"
  obtains r where "c2 = c1\<lparr>deployment_account_region := r\<rparr>"
proof (cases "deployment_account_region c1 = deployment_account_region c2")
  case True
  with assms have "c2 = c1\<lparr>deployment_account_region := deployment_account_region c1\<rparr>"
    by (auto simp: single_deployment_region_def split: pyval.splits if_splits list.splits)
  then show ?thesis by (rule that)
next
  case False
  with assms have "c2 = c1\<lparr>deployment_account_region := deployment_account_region c2\<rparr>"
    by (auto simp: single_deployment_region_def split: pyval.splits if_splits list.splits)
  then show ?thesis by (rule that)
qed

text \<open>What validation leaves as it is, and what it does to the target regions.\<close>

lemma validate_fields:
  assumes "validate c1 = Inr cfg"
  shows "target_regions cfg =
           (case target_regions c1 of PList ts \<Rightarrow> PList ts | t \<Rightarrow> PList [t])"
    and "notification_type cfg = notification_type c1"
    and "notification_endpoint cfg = notification_endpoint c1"
    and "notification_channel cfg = notification_channel c1"
    and "extensions cfg = extensions c1"
proof -
  from assms obtain c2 where c2: "single_deployment_region c1 = Inr c2"
    and cfg: "cfg = listify_target_regions c2"
    by (rule validate_InrD)
  from c2 obtain r where r: "c2 = c1\<lparr>deployment_account_region := r\<rparr>"
    by (rule single_deployment_region_InrD)
  show "target_regions cfg =
           (case target_regions c1 of PList ts \<Rightarrow> PList ts | t \<Rightarrow> PList [t])"
    and "notification_type cfg = notification_type c1"
    and "notification_endpoint cfg = notification_endpoint c1"
    and "notification_channel cfg = notification_channel c1"
    and "extensions cfg = extensions c1"
    by (simp_all add: cfg r listify_target_regions_def split: pyval.splits)
qed

section \<open>Target regions\<close>

text \<open>
  Claim C4: for a document that construction accepts, \<open>target_regions\<close> is determined by
  \<^verbatim>\<open>regions.targets\<close> as follows. If that is a sequence whose first element is null, the
  result is the empty sequence; if it is a sequence whose first element is not null, the
  result is that very sequence, later nulls included; and if it is not a sequence at all,
  the result is the one-element sequence holding it.
\<close>

theorem target_regions_derived:
  assumes "init_fields environ parameter_store path = Inr c0"
      and "yaml_load (config_path c0) = Inr (PDict d)"
      and "map_of d ''regions'' = Some (PDict r)"
      and "map_of r ''targets'' = Some t"
      and "Config_init environ yaml_load parameter_store path = Inr cfg"
  shows "(\<forall>xs. t = PList (PNone # xs) \<longrightarrow> target_regions cfg = PList []) \<and>
         (\<forall>x xs. t = PList (x # xs) \<and> x \<noteq> PNone \<longrightarrow> target_regions cfg = PList (x # xs)) \<and>
         ((\<forall>xs. t \<noteq> PList xs) \<longrightarrow> target_regions cfg = PList [t])"
proof -
  from assms(5) obtain c0' doc c1 where "init_fields environ parameter_store path = Inr c0'"
    and "yaml_load (config_path c0') = Inr doc"
    and "derive_fields (c0'\<lparr>config_contents := doc\<rparr>) = Inr c1"
    and v: "validate c1 = Inr cfg"
    by (rule Config_init_InrD)
  with assms(1,2) have "derive_fields (c0\<lparr>config_contents := PDict d\<rparr>) = Inr c1"
    by simp
  then obtain d' r' t' first where
      "config_contents (c0\<lparr>config_contents := PDict d\<rparr>) = PDict d'"
      "(case map_of d' ''regions'' of None \<Rightarrow> PDict [] | Some v \<Rightarrow> v) = PDict r'"
      "(case map_of r' ''targets'' of None \<Rightarrow> PList [] | Some v \<Rightarrow> v) = t'"
      "py_getitem t' (PInt 0) = Inr first"
      "target_regions c1 = (if first = PNone then PList [] else t')"
    by (rule derive_fields_InrD)
  with assms(3,4) have first: "py_getitem t (PInt 0) = Inr first"
    and c1: "target_regions c1 = (if first = PNone then PList [] else t)"
    by simp_all
  note cfg = validate_fields(1) [OF v]
  show ?thesis
    using first c1 cfg by (auto simp: py_getitem_first_Inr split: pyval.splits)
qed

section \<open>Notification\<close>

text \<open>
  Claim C7: for a document that construction accepts, the notification fields come from the
  first entry of \<^verbatim>\<open>config["main-notification-endpoint"]\<close> alone. That entry is a mapping; if
  its type is \<^verbatim>\<open>"slack"\<close>, \<open>notification_type\<close> is \<^verbatim>\<open>"lambda"\<close> and \<open>notification_channel\<close> is the
  entry's target; for any other type (or none) \<open>notification_type\<close> is \<^verbatim>\<open>"email"\<close> and
  \<open>notification_channel\<close> is null; in both cases \<open>notification_endpoint\<close> is the entry's target
  (null when the entry has none).
\<close>

theorem notification_derived:
  assumes "init_fields environ parameter_store path = Inr c0"
      and "yaml_load (config_path c0) = Inr (PDict d)"
      and "map_of d ''config'' = Some (PDict c)"
      and "map_of c ''main-notification-endpoint'' = Some (PList (entry # rest))"
      and "Config_init environ yaml_load parameter_store path = Inr cfg"
  shows "\<exists>e. entry = PDict e \<and>
           (map_of e ''type'' = Some (PStr ''slack'') \<longrightarrow>
              notification_type cfg = PStr ''lambda'' \<and>
              notification_channel cfg = (case map_of e ''target'' of None \<Rightarrow> PNone | Some v \<Rightarrow> v)) \<and>
           (map_of e ''type'' \<noteq> Some (PStr ''slack'') \<longrightarrow>
              notification_type cfg = PStr ''email'' \<and> notification_channel cfg = PNone) \<and>
           notification_endpoint cfg = (case map_of e ''target'' of None \<Rightarrow> PNone | Some v \<Rightarrow> v)"
proof -
  from assms(5) obtain c0' doc c1 where "init_fields environ parameter_store path = Inr c0'"
    and "yaml_load (config_path c0') = Inr doc"
    and "derive_fields (c0'\<lparr>config_contents := doc\<rparr>) = Inr c1"
    and v: "validate c1 = Inr cfg"
    by (rule Config_init_InrD)
  with assms(1,2) have "derive_fields (c0\<lparr>config_contents := PDict d\<rparr>) = Inr c1"
    by simp
  then obtain d' c' e rest' where
      "config_contents (c0\<lparr>config_contents := PDict d\<rparr>) = PDict d'"
      "(case map_of d' ''config'' of None \<Rightarrow> PNone | Some v \<Rightarrow> v) = PDict c'"
      "(case map_of c' ''main-notification-endpoint'' of None \<Rightarrow> PNone | Some v \<Rightarrow> v) =
         PList (PDict e # rest')"
      "notification_type c1 =
         (if map_of e ''type'' = Some (PStr ''slack'') then PStr ''lambda'' else PStr ''email'')"
      "notification_endpoint c1 = (case map_of e ''target'' of None \<Rightarrow> PNone | Some v \<Rightarrow> v)"
      "notification_channel c1 =
         (if map_of e ''type'' = Some (PStr ''slack'')
          then (case map_of e ''target'' of None \<Rightarrow> PNone | Some v \<Rightarrow> v) else PNone)"
    by (rule derive_fields_InrD)
  with assms(3,4) have "entry = PDict e"
    and "notification_type c1 =
         (if map_of e ''type'' = Some (PStr ''slack'') then PStr ''lambda'' else PStr ''email'')"
    and "notification_endpoint c1 = (case map_of e ''target'' of None \<Rightarrow> PNone | Some v \<Rightarrow> v)"
    and "notification_channel c1 =
         (if map_of e ''type'' = Some (PStr ''slack'')
          then (case map_of e ''target'' of None \<Rightarrow> PNone | Some v \<Rightarrow> v) else PNone)"
    by simp_all
  then show ?thesis
    by (simp add: validate_fields(2-4) [OF v])
qed


text \<open>The theorem at \<^verbatim>\<open>[null, "eu-west-1"]\<close>, at \<^verbatim>\<open>["eu-west-1", null, "eu-central-1"]\<close> and at
  the scalar \<^verbatim>\<open>"eu-west-1"\<close>; all three documents are accepted.\<close>

theorem target_regions_derived_witness:
  "(\<exists>cfg. Config_init example_environ
            (load_of (example_document (PList [PNone, PStr ''eu-west-1'']) (PStr ''us-east-1'')
                        (example_config [])))
            None None = Inr cfg \<and>
          target_regions cfg = PList []) \<and>
   (\<exists>cfg. Config_init example_environ
            (load_of (example_document (PList [PStr ''eu-west-1'', PNone, PStr ''eu-central-1''])
                        (PStr ''us-east-1'') (example_config [])))
            None None = Inr cfg \<and>
          target_regions cfg = PList [PStr ''eu-west-1'', PNone, PStr ''eu-central-1'']) \<and>
   (\<exists>cfg. Config_init example_environ
            (load_of (example_document (PStr ''eu-west-1'') (PStr ''us-east-1'')
                        (example_config [])))
            None None = Inr cfg \<and>
          target_regions cfg = PList [PStr ''eu-west-1''])"
proof -
  let ?r = "\<lambda>t. [(''deployment-account'', PStr ''us-east-1''), (''targets'', t)]"
  let ?d = "\<lambda>t. [(''roles'', PDict [(''cross-account-access'', PStr ''adf-role'')]),
                (''regions'', PDict (?r t)), (''config'', example_config [])]"
  let ?doc = "\<lambda>t. example_document t (PStr ''us-east-1'') (example_config [])"
  let ?run = "\<lambda>t. Config_init example_environ (load_of (?doc t)) None None"
  have load: "load_of (?doc t) (config_path example_self) = Inr (PDict (?d t))" for t
    by (simp add: load_of_def example_document_def)
  have regions: "map_of (?d t) ''regions'' = Some (PDict (?r t))"
    "map_of (?r t) ''targets'' = Some t" for t
    by simp_all
  let ?a = "PList [PNone, PStr ''eu-west-1'']"
  let ?b = "PList [PStr ''eu-west-1'', PNone, PStr ''eu-central-1'']"
  let ?c = "PStr ''eu-west-1''"
  obtain cfga where a: "?run ?a = Inr cfga"
    by (simp add: run_defs)
  obtain cfgb where b: "?run ?b = Inr cfgb"
    by (simp add: run_defs)
  obtain cfgc where c: "?run ?c = Inr cfgc"
    by (simp add: run_defs)
  from target_regions_derived [where yaml_load = "load_of (?doc ?a)",
      OF init_example load [of ?a] regions [of ?a] a]
  have "target_regions cfga = PList []"
    by simp
  moreover from target_regions_derived [where yaml_load = "load_of (?doc ?b)",
      OF init_example load [of ?b] regions [of ?b] b]
  have "target_regions cfgb = ?b"
    by simp
  moreover from target_regions_derived [where yaml_load = "load_of (?doc ?c)",
      OF init_example load [of ?c] regions [of ?c] c]
  have "target_regions cfgc = PList [?c]"
    by simp
  ultimately show ?thesis
    using a b c by simp
qed

text \<open>The scalars that get as far as the validator are the non-empty strings: line 107 has
  to subscript the value first, which a number does not allow.\<close>

lemma scalar_targets_accepted:
  assumes "init_fields environ parameter_store path = Inr c0"
      and "yaml_load (config_path c0) = Inr (PDict d)"
      and "map_of d ''regions'' = Some (PDict r)"
      and "map_of r ''targets'' = Some t"
      and "Config_init environ yaml_load parameter_store path = Inr cfg"
      and "\<forall>xs. t \<noteq> PList xs"
  shows "\<exists>c cs. t = PStr (c # cs)"
proof -
  from assms(5) obtain c0' doc c1 where "init_fields environ parameter_store path = Inr c0'"
    and "yaml_load (config_path c0') = Inr doc"
    and "derive_fields (c0'\<lparr>config_contents := doc\<rparr>) = Inr c1"
    by (rule Config_init_InrD)
  with assms(1,2) have "derive_fields (c0\<lparr>config_contents := PDict d\<rparr>) = Inr c1"
    by simp
  then obtain d' r' t' first where
      "config_contents (c0\<lparr>config_contents := PDict d\<rparr>) = PDict d'"
      "(case map_of d' ''regions'' of None \<Rightarrow> PDict [] | Some v \<Rightarrow> v) = PDict r'"
      "(case map_of r' ''targets'' of None \<Rightarrow> PList [] | Some v \<Rightarrow> v) = t'"
      "py_getitem t' (PInt 0) = Inr first"
    by (rule derive_fields_InrD)
  with assms(3,4) have "py_getitem t (PInt 0) = Inr first"
    by simp
  with assms(6) show ?thesis
    by (auto simp: py_getitem_first_Inr)
qed

lemma numeric_targets_raise_TypeError:
  "Config_init example_environ
     (load_of (example_document (PInt 5) (PStr ''us-east-1'') (example_config [])))
     None None = Inl TypeError"
  by (simp add: run_defs)

text \<open>The theorem at a slack entry followed by an email entry, and at the two in the other
  order.\<close>

theorem notification_derived_witness:
  "(\<exists>cfg. Config_init example_environ
            (load_of (example_document (PList [PStr ''eu-west-1'']) (PStr ''us-east-1'')
               (PDict [(''moves'', PList []),
                       (''main-notification-endpoint'',
                          PList [PDict [(''type'', PStr ''slack''), (''target'', PStr ''#chan'')],
                                 PDict [(''type'', PStr ''email''), (''target'', PStr ''a@b.com'')]])])))
            None None = Inr cfg \<and>
          notification_type cfg = PStr ''lambda'' \<and> notification_channel cfg = PStr ''#chan'' \<and>
          notification_endpoint cfg = PStr ''#chan'') \<and>
   (\<exists>cfg. Config_init example_environ
            (load_of (example_document (PList [PStr ''eu-west-1'']) (PStr ''us-east-1'')
               (PDict [(''moves'', PList []),
                       (''main-notification-endpoint'',
                          PList [PDict [(''type'', PStr ''email''), (''target'', PStr ''a@b.com'')],
                                 PDict [(''type'', PStr ''slack''), (''target'', PStr ''#chan'')]])])))
            None None = Inr cfg \<and>
          notification_type cfg = PStr ''email'' \<and> notification_channel cfg = PNone \<and>
          notification_endpoint cfg = PStr ''a@b.com'')"
proof -
  let ?slack = "PDict [(''type'', PStr ''slack''), (''target'', PStr ''#chan'')]"
  let ?email = "PDict [(''type'', PStr ''email''), (''target'', PStr ''a@b.com'')]"
  let ?c = "\<lambda>a b. [(''moves'', PList []), (''main-notification-endpoint'', PList [a, b])]"
  let ?d = "\<lambda>a b. [(''roles'', PDict [(''cross-account-access'', PStr ''adf-role'')]),
                  (''regions'', PDict [(''deployment-account'', PStr ''us-east-1''),
                                       (''targets'', PList [PStr ''eu-west-1''])]),
                  (''config'', PDict (?c a b))]"
  let ?doc = "\<lambda>a b. example_document (PList [PStr ''eu-west-1'']) (PStr ''us-east-1'') (PDict (?c a b))"
  let ?run = "\<lambda>a b. Config_init example_environ (load_of (?doc a b)) None None"
  have load: "load_of (?doc a b) (config_path example_self) = Inr (PDict (?d a b))" for a b
    by (simp add: load_of_def example_document_def)
  have conf: "map_of (?d a b) ''config'' = Some (PDict (?c a b))"
    "map_of (?c a b) ''main-notification-endpoint'' = Some (PList (a # [b]))" for a b
    by simp_all
  obtain cfga where a: "?run ?slack ?email = Inr cfga"
    by (simp add: run_defs)
  obtain cfgb where b: "?run ?email ?slack = Inr cfgb"
    by (simp add: run_defs)
  from notification_derived [where yaml_load = "load_of (?doc ?slack ?email)",
      OF init_example load [of ?slack ?email] conf [of ?slack ?email] a]
  have "notification_type cfga = PStr ''lambda'' \<and>
      notification_channel cfga = PStr ''#chan'' \<and> notification_endpoint cfga = PStr ''#chan''"
    by simp
  moreover from notification_derived [where yaml_load = "load_of (?doc ?email ?slack)",
      OF init_example load [of ?email ?slack] conf [of ?email ?slack] b]
  have "notification_type cfgb = PStr ''email'' \<and>
      notification_channel cfgb = PNone \<and> notification_endpoint cfgb = PStr ''a@b.com''"
    by simp
  ultimately show ?thesis
    using a b by simp
qed

section \<open>Extension defaults\<close>

lemma map_of_constant_entries:
  "map_of (map (\<lambda>n. (n, v)) ns) k = (if k \<in> set ns then Some v else None)"
  by (induction ns) auto

text \<open>
  Claim C8: when parsing has run up to the validator, the \<^verbatim>\<open>extensions\<close> of the document
  (the empty mapping if there is none) is a mapping \<open>x\<close>, and the model's \<open>extensions\<close> is a
  mapping \<open>x'\<close> whose keys are those of \<open>x\<close> and every known extension name; a known name that
  \<open>x\<close> lacks maps to \<^verbatim>\<open>{enabled: false}\<close>, every key of \<open>x\<close> keeps its entry, and from the empty
  \<open>x\<close> the result is exactly \<^verbatim>\<open>{"terraform": {"enabled": false}}\<close>. Validation leaves the
  mapping as it is, so a constructed model has it too.
\<close>

theorem extensions_defaulted:
  assumes "init_fields environ parameter_store path = Inr c0"
      and "yaml_load (config_path c0) = Inr (PDict d)"
      and "derive_fields (c0\<lparr>config_contents := PDict d\<rparr>) = Inr c1"
  shows "\<exists>x x'. (case map_of d ''extensions'' of None \<Rightarrow> PDict [] | Some v \<Rightarrow> v) = PDict x \<and>
           extensions c1 = PDict x' \<and>
           set (map fst x') = set (map fst x) \<union> set AVAILABLE_EXTENSIONS \<and>
           (\<forall>n. n \<in> set AVAILABLE_EXTENSIONS \<and> n \<notin> set (map fst x) \<longrightarrow>
                map_of x' n = Some (PDict [(''enabled'', PBool False)])) \<and>
           (\<forall>k. k \<in> set (map fst x) \<longrightarrow> map_of x' k = map_of x k) \<and>
           (x = [] \<longrightarrow> x' = [(''terraform'', PDict [(''enabled'', PBool False)])]) \<and>
           (\<forall>cfg. Config_init environ yaml_load parameter_store path = Inr cfg \<longrightarrow>
                  extensions cfg = PDict x')"
proof -
  from assms(3) obtain d' x where
      "config_contents (c0\<lparr>config_contents := PDict d\<rparr>) = PDict d'"
      "(case map_of d' ''extensions'' of None \<Rightarrow> PDict [] | Some v \<Rightarrow> v) = PDict x"
      "extensions c1 = PDict (x @ map (\<lambda>n. (n, PDict [(''enabled'', PBool False)]))
                                (remdups (filter (\<lambda>n. n \<notin> set (map fst x)) AVAILABLE_EXTENSIONS)))"
    by (rule derive_fields_InrD)
  then have x: "(case map_of d ''extensions'' of None \<Rightarrow> PDict [] | Some v \<Rightarrow> v) = PDict x"
    and x': "extensions c1 = PDict (x @ map (\<lambda>n. (n, PDict [(''enabled'', PBool False)]))
                                (remdups (filter (\<lambda>n. n \<notin> set (map fst x)) AVAILABLE_EXTENSIONS)))"
    by simp_all
  let ?new = "map (\<lambda>n. (n, PDict [(''enabled'', PBool False)]))
                (remdups (filter (\<lambda>n. n \<notin> set (map fst x)) AVAILABLE_EXTENSIONS))"
  have keys: "set (map fst (x @ ?new)) = set (map fst x) \<union> set AVAILABLE_EXTENSIONS"
    by (auto simp: image_iff)
  have added: "map_of (x @ ?new) n = Some (PDict [(''enabled'', PBool False)])"
    if "n \<in> set AVAILABLE_EXTENSIONS \<and> n \<notin> set (map fst x)" for n
  proof -
    from that have "map_of x n = None"
      by (simp add: map_of_eq_None_iff)
    with that show ?thesis
      by (simp add: map_add_def map_of_constant_entries)
  qed
  have kept: "map_of (x @ ?new) k = map_of x k" if "k \<in> set (map fst x)" for k
  proof -
    from that obtain v where "map_of x k = Some v"
      by (cases "map_of x k") (auto simp: map_of_eq_None_iff)
    then show ?thesis
      by (simp add: map_add_def)
  qed
  have empty: "x @ ?new = [(''terraform'', PDict [(''enabled'', PBool False)])]" if "x = []"
    using that by (simp add: AVAILABLE_EXTENSIONS_def)
  have built: "extensions cfg = PDict (x @ ?new)"
    if "Config_init environ yaml_load parameter_store path = Inr cfg" for cfg
  proof -
    from that assms have "validate c1 = Inr cfg"
      by (simp add: Config_init_parse)
    then show ?thesis
      by (simp add: validate_fields(5) x')
  qed
  show ?thesis
    using x x' keys added kept empty built by blast
qed

text \<open>The theorem at a document with \<^verbatim>\<open>extensions: {}\<close>.\<close>

theorem extensions_defaulted_witness:
  "\<exists>cfg. Config_init example_environ
           (load_of (PDict [(''roles'', PDict [(''cross-account-access'', PStr ''adf-role'')]),
                            (''regions'', PDict [(''deployment-account'', PStr ''us-east-1''),
                                                 (''targets'', PList [PStr ''eu-west-1''])]),
                            (''config'', example_config []),
                            (''extensions'', PDict [])]))
           None None = Inr cfg \<and>
         extensions cfg = PDict [(''terraform'', PDict [(''enabled'', PBool False)])]"
proof -
  let ?d = "[(''roles'', PDict [(''cross-account-access'', PStr ''adf-role'')]),
             (''regions'', PDict [(''deployment-account'', PStr ''us-east-1''),
                                  (''targets'', PList [PStr ''eu-west-1''])]),
             (''config'', example_config []),
             (''extensions'', PDict [])]"
  have load: "load_of (PDict ?d) (config_path example_self) = Inr (PDict ?d)"
    by (simp add: load_of_def)
  obtain c1 where c1: "derive_fields (example_self\<lparr>config_contents := PDict ?d\<rparr>) = Inr c1"
    by (simp add: run_defs)
  obtain cfg where cfg: "Config_init example_environ (load_of (PDict ?d)) None None = Inr cfg"
    by (simp add: run_defs)
  from extensions_defaulted [where yaml_load = "load_of (PDict ?d)", OF init_example load c1] cfg
  have "extensions cfg = PDict [(''terraform'', PDict [(''enabled'', PBool False)])]"
    by auto
  with cfg show ?thesis
    by simp
qed

section \<open>The primary store\<close>

lemma example_model_constructed:
  "Config_init example_environ
     (load_of (example_document (PList [PStr ''eu-west-1'']) (PStr ''us-east-1'')
                 (example_config [])))
     None None = Inr example_model"
  by (simp add: run_defs example_model_def)

lemma put_fields_keys:
  "call \<in> set (put_fields render client items) \<Longrightarrow> fst (snd call) \<notin> set excluded_keys"
  by (induction render client items rule: put_fields.induct) (auto split: if_splits)

lemma put_attributes_keys:
  "call \<in> set (fst (put_attributes render client extension attributes as)) \<Longrightarrow>
     \<exists>rest. fst (snd call) = ''/adf/extensions/'' @ rest"
proof (induction as)
  case Nil
  then show ?case by simp
next
  case (Cons a as)
  then show ?case
    by (cases "py_getitem attributes a") (auto split: prod.splits)
qed

lemma put_extensions_keys:
  "call \<in> set (fst (put_extensions render client x)) \<Longrightarrow>
     \<exists>rest. fst (snd call) = ''/adf/extensions/'' @ rest"
proof (induction x)
  case Nil
  then show ?case by simp
next
  case (Cons p x)
  obtain extension attributes where p: "p = (extension, attributes)"
    by (cases p)
  show ?case
  proof (cases "py_iter attributes")
    case (Inl e)
    with Cons.prems p show ?thesis by simp
  next
    case (Inr as)
    obtain calls outcome where a: "put_attributes render client extension attributes as = (calls, outcome)"
      by (cases "put_attributes render client extension attributes as")
    obtain calls' outcome' where b: "put_extensions render client x = (calls', outcome')"
      by (cases "put_extensions render client x")
    from Cons.prems p Inr a b have "call \<in> set calls \<or> call \<in> set calls'"
      by (cases outcome) auto
    then show ?thesis
    proof
      assume "call \<in> set calls"
      with a put_attributes_keys [of call render client extension attributes as]
      show ?thesis by simp
    next
      assume "call \<in> set calls'"
      with b Cons.IH show ?thesis by simp
    qed
  qed
qed

lemma extension_key_not_excluded: "''/adf/extensions/'' @ rest \<notin> set excluded_keys"
  by (simp add: excluded_keys_def)

lemma store_config_priv_keys:
  assumes "call \<in> set (fst (store_config_priv render self))"
  shows "fst (snd call) \<notin> set excluded_keys"
proof -
  let ?fields = "put_fields render (parameters_client self) (dict_items self)"
  have "call \<in> set ?fields \<or>
        (\<exists>x. extensions self = PDict x \<and>
             call \<in> set (fst (put_extensions render (parameters_client self) x)))"
    using assms
    by (cases "extensions self")
       (auto simp: store_config_priv_def Let_def split: prod.splits)
  then show ?thesis
  proof
    assume "call \<in> set ?fields"
    then show ?thesis by (rule put_fields_keys)
  next
    assume "\<exists>x. extensions self = PDict x \<and>
             call \<in> set (fst (put_extensions render (parameters_client self) x))"
    then obtain rest where "fst (snd call) = ''/adf/extensions/'' @ rest"
      using put_extensions_keys by blast
    then show ?thesis
      by (simp only: extension_key_not_excluded not_False_eq_True)
  qed
qed

lemma put_attributes_mapping:
  assumes "distinct (map fst ad)" and "set part \<subseteq> set ad"
  shows "put_attributes render client extension (PDict ad) (map (\<lambda>kv. PStr (fst kv)) part) =
           (map (\<lambda>(k, v). (client, ''/adf/extensions/'' @ extension @ ''/'' @ k,
                            PStr (py_str render (Val v)))) part, None)"
  using assms(2)
proof (induction part)
  case Nil
  then show ?case by simp
next
  case (Cons kv part)
  obtain k v where kv: "kv = (k, v)"
    by (cases kv)
  with Cons.prems have "(k, v) \<in> set ad"
    by simp
  with assms(1) have "map_of ad k = Some v"
    by (rule map_of_is_SomeI)
  with Cons kv show ?case
    by (simp add: py_str_def)
qed

lemma put_extensions_mappings:
  assumes "\<forall>(n, ad) \<in> set xs. distinct (map fst ad)"
  shows "put_extensions render client (map (\<lambda>(n, ad). (n, PDict ad)) xs) =
           (concat (map (\<lambda>(n, ad).
                      map (\<lambda>(k, v). (client, ''/adf/extensions/'' @ n @ ''/'' @ k,
                                       PStr (py_str render (Val v)))) ad) xs), None)"
  using assms
proof (induction xs)
  case Nil
  then show ?case by simp
next
  case (Cons p xs)
  obtain n ad where p: "p = (n, ad)"
    by (cases p)
  with Cons.prems have "distinct (map fst ad)"
    by simp
  then have "put_attributes render client n (PDict ad) (map (\<lambda>kv. PStr (fst kv)) ad) =
           (map (\<lambda>(k, v). (client, ''/adf/extensions/'' @ n @ ''/'' @ k,
                            PStr (py_str render (Val v)))) ad, None)"
    by (rule put_attributes_mapping) simp
  with Cons p show ?case
    by simp
qed

text \<open>
  Claim C5: no call that \<^verbatim>\<open>_store_config\<close> makes, whether it runs to its end or is cut short
  by an exception, has a key among \<^verbatim>\<open>client\<close>, \<^verbatim>\<open>client_deployment_region\<close>,
  \<^verbatim>\<open>parameters_client\<close>, \<^verbatim>\<open>config_contents\<close>, \<^verbatim>\<open>config_path\<close>, \<^verbatim>\<open>notification_endpoint\<close>,
  \<^verbatim>\<open>notification_type\<close> and \<^verbatim>\<open>extensions\<close>. When \<open>extensions\<close> maps every extension to a
  mapping of attributes, the calls are the seven remaining fields followed by one call
  with key \<^verbatim>\<open>/adf/extensions/{extension}/{attribute}\<close> for each pair of an extension and one
  of its attributes, in order, and the method returns normally.
\<close>

theorem primary_store_keys:
  "(\<forall>call \<in> set (fst (store_config_priv render self)).
      fst (snd call) \<notin> {''client'', ''client_deployment_region'', ''parameters_client'',
                         ''config_contents'', ''config_path'', ''notification_endpoint'',
                         ''notification_type'', ''extensions''}) \<and>
   (\<forall>xs. extensions self = PDict (map (\<lambda>(n, ad). (n, PDict ad)) xs) \<and>
         (\<forall>(n, ad) \<in> set xs. distinct (map fst ad)) \<longrightarrow>
      store_config_priv render self =
        ([(parameters_client self, ''organization_id'',
             PStr (py_str render (Val (organization_id self)))),
          (parameters_client self, ''config'', PStr (py_str render (Val (config self)))),
          (parameters_client self, ''deployment_account_region'',
             PStr (py_str render (Val (deployment_account_region self)))),
          (parameters_client self, ''notification_channel'',
             PStr (py_str render (Val (notification_channel self)))),
          (parameters_client self, ''protected'', PStr (py_str render (Val (protected self)))),
          (parameters_client self, ''target_regions'',
             PStr (py_str render (Val (target_regions self)))),
          (parameters_client self, ''cross_account_access_role'',
             PStr (py_str render (Val (cross_account_access_role self))))] @
         concat (map (\<lambda>(n, ad).
                   map (\<lambda>(k, v). (parameters_client self,
                                    ''/adf/extensions/'' @ n @ ''/'' @ k,
                                    PStr (py_str render (Val v)))) ad) xs),
         None))"
proof (intro conjI allI impI ballI)
  fix call
  assume "call \<in> set (fst (store_config_priv render self))"
  then have "fst (snd call) \<notin> set excluded_keys"
    by (rule store_config_priv_keys)
  then show "fst (snd call) \<notin> {''client'', ''client_deployment_region'', ''parameters_client'',
                         ''config_contents'', ''config_path'', ''notification_endpoint'',
                         ''notification_type'', ''extensions''}"
    by (simp add: excluded_keys_def)
next
  fix xs
  assume a: "extensions self = PDict (map (\<lambda>(n, ad). (n, PDict ad)) xs) \<and>
         (\<forall>(n, ad) \<in> set xs. distinct (map fst ad))"
  then have "put_extensions render (parameters_client self) (map (\<lambda>(n, ad). (n, PDict ad)) xs) =
           (concat (map (\<lambda>(n, ad).
                      map (\<lambda>(k, v). (parameters_client self, ''/adf/extensions/'' @ n @ ''/'' @ k,
                                       PStr (py_str render (Val v)))) ad) xs), None)"
    by (intro put_extensions_mappings) simp
  with a show "store_config_priv render self =
        ([(parameters_client self, ''organization_id'',
             PStr (py_str render (Val (organization_id self)))),
          (parameters_client self, ''config'', PStr (py_str render (Val (config self)))),
          (parameters_client self, ''deployment_account_region'',
             PStr (py_str render (Val (deployment_account_region self)))),
          (parameters_client self, ''notification_channel'',
             PStr (py_str render (Val (notification_channel self)))),
          (parameters_client self, ''protected'', PStr (py_str render (Val (protected self)))),
          (parameters_client self, ''target_regions'',
             PStr (py_str render (Val (target_regions self)))),
          (parameters_client self, ''cross_account_access_role'',
             PStr (py_str render (Val (cross_account_access_role self))))] @
         concat (map (\<lambda>(n, ad).
                   map (\<lambda>(k, v). (parameters_client self,
                                    ''/adf/extensions/'' @ n @ ''/'' @ k,
                                    PStr (py_str render (Val v)))) ad) xs),
         None)"
    by (simp add: store_config_priv_def dict_items_def excluded_keys_def)
qed


text \<open>The theorem at the example model.\<close>

theorem primary_store_keys_witness:
  "store_config_priv example_render example_model =
     ([(ParameterStore (PStr ''eu-west-1''), ''organization_id'', PStr ''o-example''),
       (ParameterStore (PStr ''eu-west-1''), ''config'', PStr ''(a value)''),
       (ParameterStore (PStr ''eu-west-1''), ''deployment_account_region'', PStr ''us-east-1''),
       (ParameterStore (PStr ''eu-west-1''), ''notification_channel'', PStr ''None''),
       (ParameterStore (PStr ''eu-west-1''), ''protected'', PStr ''(a value)''),
       (ParameterStore (PStr ''eu-west-1''), ''target_regions'', PStr ''(a value)''),
       (ParameterStore (PStr ''eu-west-1''), ''cross_account_access_role'', PStr ''adf-role''),
       (ParameterStore (PStr ''eu-west-1''), ''/adf/extensions/terraform/enabled'', PStr ''False'')],
      None)"
proof -
  have "extensions example_model =
          PDict (map (\<lambda>(n, ad). (n, PDict ad)) [(''terraform'', [(''enabled'', PBool False)])]) \<and>
        (\<forall>(n, ad) \<in> set [(''terraform'', [(''enabled'', PBool False)])]. distinct (map fst ad))"
    by (simp add: example_model_def)
  with primary_store_keys [of example_render example_model]
  have "store_config_priv example_render example_model =
        ([(parameters_client example_model, ''organization_id'',
             PStr (py_str example_render (Val (organization_id example_model)))),
          (parameters_client example_model, ''config'',
             PStr (py_str example_render (Val (config example_model)))),
          (parameters_client example_model, ''deployment_account_region'',
             PStr (py_str example_render (Val (deployment_account_region example_model)))),
          (parameters_client example_model, ''notification_channel'',
             PStr (py_str example_render (Val (notification_channel example_model)))),
          (parameters_client example_model, ''protected'',
             PStr (py_str example_render (Val (protected example_model)))),
          (parameters_client example_model, ''target_regions'',
             PStr (py_str example_render (Val (target_regions example_model)))),
          (parameters_client example_model, ''cross_account_access_role'',
             PStr (py_str example_render (Val (cross_account_access_role example_model))))] @
         concat (map (\<lambda>(n, ad).
                   map (\<lambda>(k, v). (parameters_client example_model,
                                    ''/adf/extensions/'' @ n @ ''/'' @ k,
                                    PStr (py_str example_render (Val v)))) ad)
                 [(''terraform'', [(''enabled'', PBool False)])]),
         None)"
    by blast
  then show ?thesis
    by (simp add: example_model_def example_self_def example_config_def py_str_def
        example_render_def)
qed

section \<open>Storing twice\<close>

text \<open>The primary pass does not depend on the client that the replication pass leaves in the
  instance.\<close>

lemma store_config_priv_client [simp]:
  "store_config_priv render (self\<lparr>client_deployment_region := c\<rparr>) = store_config_priv render self"
  by (cases "extensions self") (simp_all add: store_config_priv_def dict_items_def excluded_keys_def)

text \<open>
  Claim C6: call \<^verbatim>\<open>store_config\<close>, and call it again on the instance as the first call left
  it. The second call makes the same calls with the same keys and values in the same order,
  ends the same way and leaves the instance as it was.
\<close>

theorem store_config_repeatable:
  assumes "store_config adf_version render self = (self1, calls1, outcome1)"
      and "store_config adf_version render self1 = (self2, calls2, outcome2)"
  shows "calls2 = calls1 \<and> set calls2 = set calls1 \<and> outcome2 = outcome1 \<and> self2 = self1"
proof -
  obtain calls outcome where priv: "store_config_priv render self = (calls, outcome)"
    by (cases "store_config_priv render self")
  show ?thesis
  proof (cases outcome)
    case (Some e)
    with priv assms(1) have "self1 = self" "calls1 = calls" "outcome1 = Some e"
      by (simp_all add: store_config_def)
    with priv Some assms(2) show ?thesis
      by (simp add: store_config_def)
  next
    case None
    with priv assms(1)
    have "self1 = self\<lparr>client_deployment_region :=
                         Some (ParameterStore (deployment_account_region self))\<rparr>"
      and "calls1 = calls @ snd (store_cross_region_config adf_version self)"
      and "outcome1 = None"
      by (auto simp: store_config_def store_cross_region_config_def Let_def)
    with priv None assms(2) show ?thesis
      by (auto simp: store_config_def store_cross_region_config_def Let_def)
  qed
qed

text \<open>The theorem at the example model, whose ten calls are repeated.\<close>

theorem store_config_repeatable_witness:
  "fst (snd (store_config ''4.0.0'' example_render
               (fst (store_config ''4.0.0'' example_render example_model)))) =
   fst (snd (store_config ''4.0.0'' example_render example_model)) \<and>
   length (fst (snd (store_config ''4.0.0'' example_render example_model))) = 10 \<and>
   client_deployment_region (fst (store_config ''4.0.0'' example_render example_model)) =
     Some (ParameterStore (PStr ''us-east-1''))"
proof -
  obtain self1 calls1 outcome1
    where one: "store_config ''4.0.0'' example_render example_model = (self1, calls1, outcome1)"
    by (cases "store_config ''4.0.0'' example_render example_model")
  obtain self2 calls2 outcome2
    where two: "store_config ''4.0.0'' example_render self1 = (self2, calls2, outcome2)"
    by (cases "store_config ''4.0.0'' example_render self1")
  from store_config_repeatable [OF one two] have "calls2 = calls1"
    by simp
  moreover from one have "length calls1 = 10"
      and "client_deployment_region self1 = Some (ParameterStore (PStr ''us-east-1''))"
    by (auto simp: store_config_def store_config_priv_def dict_items_def excluded_keys_def
        store_cross_region_config_def Let_def example_model_def example_self_def)
  ultimately show ?thesis
    using one two by simp
qed

section \<open>Replication to the deployment region\<close>

text \<open>
  Claim C9: \<^verbatim>\<open>_store_cross_region_config\<close> makes a client for \<open>deployment_account_region\<close>, keeps
  it in the instance and makes exactly two calls on it: \<^verbatim>\<open>adf_version\<close> with the version, and
  \<^verbatim>\<open>cross_account_access_role\<close> with the role. In \<^verbatim>\<open>store_config\<close> these two calls follow
  those of a primary pass that returned normally.
\<close>

theorem cross_region_writes:
  "store_cross_region_config adf_version self =
     (self\<lparr>client_deployment_region := Some (ParameterStore (deployment_account_region self))\<rparr>,
      [(ParameterStore (deployment_account_region self), ''adf_version'', PStr adf_version),
       (ParameterStore (deployment_account_region self), ''cross_account_access_role'',
          cross_account_access_role self)]) \<and>
   length (snd (store_cross_region_config adf_version self)) = 2 \<and>
   (\<forall>calls. store_config_priv render self = (calls, None) \<longrightarrow>
      store_config adf_version render self =
        (self\<lparr>client_deployment_region := Some (ParameterStore (deployment_account_region self))\<rparr>,
         calls @
         [(ParameterStore (deployment_account_region self), ''adf_version'', PStr adf_version),
          (ParameterStore (deployment_account_region self), ''cross_account_access_role'',
             cross_account_access_role self)],
         None))"
  by (simp add: store_cross_region_config_def store_config_def Let_def)

text \<open>The theorem at the example model.\<close>

theorem cross_region_writes_witness:
  "snd (store_cross_region_config ''4.0.0'' example_model) =
     [(ParameterStore (PStr ''us-east-1''), ''adf_version'', PStr ''4.0.0''),
      (ParameterStore (PStr ''us-east-1''), ''cross_account_access_role'', PStr ''adf-role'')] \<and>
   drop 8 (fst (snd (store_config ''4.0.0'' example_render example_model))) =
     [(ParameterStore (PStr ''us-east-1''), ''adf_version'', PStr ''4.0.0''),
      (ParameterStore (PStr ''us-east-1''), ''cross_account_access_role'', PStr ''adf-role'')]"
proof -
  obtain calls where priv: "store_config_priv example_render example_model = (calls, None)"
    and len: "length calls = 8"
    by (simp add: store_config_priv_def dict_items_def excluded_keys_def example_model_def
        example_self_def)
  from cross_region_writes [of "''4.0.0''" example_model example_render] priv
  have "store_cross_region_config ''4.0.0'' example_model =
     (example_model\<lparr>client_deployment_region :=
                      Some (ParameterStore (deployment_account_region example_model))\<rparr>,
      [(ParameterStore (deployment_account_region example_model), ''adf_version'', PStr ''4.0.0''),
       (ParameterStore (deployment_account_region example_model), ''cross_account_access_role'',
          cross_account_access_role example_model)])"
    and "store_config ''4.0.0'' example_render example_model =
        (example_model\<lparr>client_deployment_region :=
                         Some (ParameterStore (deployment_account_region example_model))\<rparr>,
         calls @
         [(ParameterStore (deployment_account_region example_model), ''adf_version'', PStr ''4.0.0''),
          (ParameterStore (deployment_account_region example_model), ''cross_account_access_role'',
             cross_account_access_role example_model)],
         None)"
    by blast+
  with len show ?thesis
    by (simp add: example_model_def)
qed

end
